theory Spec2Isabelle
  imports Complex_Main "HOL-Library.Word"
begin

section \<open>The AI endpoint of server.js\<close>

text \<open>
  The repository is one file, \<^verbatim>\<open>src/server.js\<close>: an Express application with a
  logging middleware, a helper \<^verbatim>\<open>buildGeminiBody\<close> and one route,
  \<^verbatim>\<open>POST /api/ai\<close>. This theory embeds the helper and the route handler.
  The handler is asynchronous JavaScript; its two suspension points (the \<^verbatim>\<open>fetch\<close> call
  and the decoding of the response body) are modelled by a function standing for the
  upstream provider, from the request sent to the outcome of the call. The logging
  middleware (lines 12 to 48) and \<^verbatim>\<open>app.listen\<close> are not part of the embedding.
\<close>

subsection \<open>JavaScript values\<close>

text \<open>
  A JavaScript string is a sequence of 16-bit code units. The string literals of the
  source are ASCII except for one emoji, so they are written as HOL strings and injected
  with \<open>ascii\<close>; the emoji is given by its surrogate pair.
\<close>

type_synonym jsstring = "16 word list"

definition ascii :: "string \<Rightarrow> jsstring" where
  "ascii s = map of_char s"

text \<open>
  Numbers are IEEE doubles. The program does no arithmetic; it only tests numbers for
  truthiness. The finite doubles are rationals, so the model takes all rationals together
  with the four special values.
\<close>

datatype jsnum = Num rat | NegZero | PosInfinity | NegInfinity | NaN

text \<open>
  The values the handler meets: \<^verbatim>\<open>undefined\<close> and the values that \<^verbatim>\<open>JSON.parse\<close>
  produces. An object is the list of its own properties; \<^verbatim>\<open>JSON.parse\<close> yields every key
  at most once, and a lookup takes the first entry of a key.
\<close>

datatype jsval =
    JUndefined
  | JNull
  | JBool bool
  | JNumber jsnum
  | JString jsstring
  | JArray "jsval list"
  | JObject "(jsstring \<times> jsval) list"

text \<open>Errors that an operation of the handler can throw.\<close>

datatype exn =
    TypeError
  | FetchError jsstring
  | SyntaxError jsstring

text \<open>\<^verbatim>\<open>ToBoolean\<close>: what \<^verbatim>\<open>!x\<close>, \<^verbatim>\<open>x || y\<close> and \<^verbatim>\<open>if (x)\<close> test.\<close>

fun truthy :: "jsval \<Rightarrow> bool" where
  "truthy JUndefined = False"
| "truthy JNull = False"
| "truthy (JBool b) = b"
| "truthy (JNumber (Num r)) = (r \<noteq> 0)"
| "truthy (JNumber NegZero) = False"
| "truthy (JNumber PosInfinity) = True"
| "truthy (JNumber NegInfinity) = True"
| "truthy (JNumber NaN) = False"
| "truthy (JString s) = (s \<noteq> [])"
| "truthy (JArray xs) = True"
| "truthy (JObject kvs) = True"

text \<open>\<^verbatim>\<open>a || b\<close> on values.\<close>

definition js_or :: "jsval \<Rightarrow> jsval \<Rightarrow> jsval" where
  "js_or a b = (if truthy a then a else b)"

text \<open>\<^verbatim>\<open>typeof x\<close>.\<close>

fun typeof :: "jsval \<Rightarrow> jsstring" where
  "typeof JUndefined = ascii ''undefined''"
| "typeof JNull = ascii ''object''"
| "typeof (JBool b) = ascii ''boolean''"
| "typeof (JNumber n) = ascii ''number''"
| "typeof (JString s) = ascii ''string''"
| "typeof (JArray xs) = ascii ''object''"
| "typeof (JObject kvs) = ascii ''object''"

subsection \<open>Property access\<close>

text \<open>
  An array and a string have the own properties \<^verbatim>\<open>length\<close> and one per index, the index
  written as a canonical decimal string (no sign, no leading zero). \<open>array_index\<close> reads
  such a key.
\<close>

definition is_digit :: "16 word \<Rightarrow> bool" where
  "is_digit c = (0x30 \<le> c \<and> c \<le> 0x39)"

definition array_index :: "jsstring \<Rightarrow> nat option" where
  "array_index k =
     (if k = [] then None
      else if list_ex (\<lambda>c. \<not> is_digit c) k then None
      else if hd k = 0x30 \<and> 1 < length k then None
      else Some (foldl (\<lambda>a c. 10 * a + (unat c - 48)) 0 k))"

text \<open>
  The own property \<open>k\<close> of a value, \<open>None\<close> when it has none. \<^verbatim>\<open>undefined\<close> and
  \<^verbatim>\<open>null\<close> have no properties at all. Properties inherited from the built-in prototypes
  are methods and accessors, not data; none of the names that server.js reads
  (\<^verbatim>\<open>query\<close>, \<^verbatim>\<open>promptFeedback\<close>, \<^verbatim>\<open>blockReason\<close>, \<^verbatim>\<open>candidates\<close>, \<^verbatim>\<open>content\<close>,
  \<^verbatim>\<open>parts\<close>, \<^verbatim>\<open>text\<close>, \<^verbatim>\<open>0\<close>) is among them, so for these names reading a property is
  reading an own property.
\<close>

fun own_property :: "jsval \<Rightarrow> jsstring \<Rightarrow> jsval option" where
  "own_property (JObject kvs) k = map_of kvs k"
| "own_property (JArray xs) k =
     (if k = ascii ''length'' then Some (JNumber (Num (of_nat (length xs))))
      else case array_index k of
             None \<Rightarrow> None
           | Some i \<Rightarrow> (if i < length xs then Some (xs ! i) else None))"
| "own_property (JString s) k =
     (if k = ascii ''length'' then Some (JNumber (Num (of_nat (length s))))
      else case array_index k of
             None \<Rightarrow> None
           | Some i \<Rightarrow> (if i < length s then Some (JString [s ! i]) else None))"
| "own_property v k = None"

text \<open>\<^verbatim>\<open>v.k\<close> and \<^verbatim>\<open>v[k]\<close>: a \<^verbatim>\<open>TypeError\<close> on \<^verbatim>\<open>undefined\<close> and \<^verbatim>\<open>null\<close>.\<close>

definition nullish :: "jsval \<Rightarrow> bool" where
  "nullish v = (v = JUndefined \<or> v = JNull)"

definition member :: "jsval \<Rightarrow> jsstring \<Rightarrow> exn + jsval" where
  "member v k =
     (if nullish v then Inl TypeError
      else case own_property v k of None \<Rightarrow> Inr JUndefined | Some w \<Rightarrow> Inr w)"

text \<open>\<^verbatim>\<open>v?.k\<close> and \<^verbatim>\<open>v?.[k]\<close>: \<^verbatim>\<open>undefined\<close> on \<^verbatim>\<open>undefined\<close> and \<^verbatim>\<open>null\<close>.\<close>

definition opt_member :: "jsval \<Rightarrow> jsstring \<Rightarrow> jsval" where
  "opt_member v k =
     (if nullish v then JUndefined
      else case own_property v k of None \<Rightarrow> JUndefined | Some w \<Rightarrow> w)"

text \<open>
  The field of a body at a path of keys, in the words of the specification: \<open>Some v\<close>
  when every key of the path is present and \<open>v\<close> is the value at its end, \<open>None\<close> when
  some key of the path is missing.
\<close>

fun field_at :: "jsval \<Rightarrow> jsstring list \<Rightarrow> jsval option" where
  "field_at v [] = Some v"
| "field_at v (k # ks) =
     (case own_property v k of None \<Rightarrow> None | Some w \<Rightarrow> field_at w ks)"

subsection \<open>The prompt builder\<close>

text \<open>
  \<^verbatim>\<open>buildGeminiBody\<close>, lines 59 to 88. The template literal \<^verbatim>\<open>systemPrompt\<close> is ASCII;
  it is given line by line.
\<close>

definition systemPrompt :: jsstring where
  \<open>systemPrompt = ascii (
     ''You are an AI Pharmacist for the pharmacy "New Lucky Pharma" in India.\<newline>'' @
     ''\<newline>'' @
     ''Your goals:\<newline>'' @
     ''- If the user starts with a simple greeting (e.g., "Hi", "Hello", "How are you?"), reply briefly with a friendly, single-sentence greeting and ask how you can help (e.g., "Hello! How can I assist you with your health questions today?").\<newline>'' @
     ''- For all other queries (i.e., medical questions, product questions), reply directly and immediately to the user's query. Do not add any extra conversational text.\<newline>'' @
     ''- Help customers understand medicines, their uses, and basic health questions.\<newline>'' @
     ''- IMPORTANT: Always answer medical/product queries in numbered points (1., 2., 3., etc.), with each point on a separate line.\<newline>'' @
     ''- Keep Answer short and clean, aiming for 5 to 10 lines maximum.\<newline>'' @
     ''- Keep each point short and clear.\<newline>'' @
     ''- Do not write long paragraphs; break information into separate numbered points.\<newline>'' @
     ''- You are NOT a doctor. Always end replies with: Please consult a doctor for serious advice.\<newline>'' @
     ''\<newline>'' @
     ''Example format for medical query:\<newline>'' @
     ''1. Medicine name and type\<newline>'' @
     ''2. How it is used\<newline>'' @
     ''3. When to take it\<newline>'' @
     ''4. Important warnings'')\<close>

definition buildGeminiBody :: "jsval \<Rightarrow> jsval" where
  "buildGeminiBody query =
     JObject [(ascii ''contents'',
       JArray [
         JObject [(ascii ''parts'',
           JArray [
             JObject [(ascii ''text'', JString systemPrompt)],
             JObject [(ascii ''text'', query)]])]])]"

subsection \<open>Process configuration\<close>

text \<open>
  \<^verbatim>\<open>process.env\<close> maps names to strings. Lines 51 and 52 run once, when the module is
  loaded (after \<^verbatim>\<open>dotenv.config()\<close> has filled the environment), and bind two
  constants. \<^verbatim>\<open>PORT\<close> is the string of the environment or else the number 3001.
\<close>

type_synonym env = "jsstring \<rightharpoonup> jsstring"

record config =
  PORT :: jsval
  GOOGLE_API_KEY :: "jsstring option"

definition load_config :: "env \<Rightarrow> config" where
  "load_config e =
     \<lparr> PORT = (case e (ascii ''PORT'') of
                 None \<Rightarrow> JNumber (Num 3001)
               | Some p \<Rightarrow> (if p = [] then JNumber (Num 3001) else JString p)),
       GOOGLE_API_KEY = e (ascii ''GOOGLE_API_KEY'') \<rparr>"

subsection \<open>The upstream call and the response\<close>

text \<open>
  The request handed to \<^verbatim>\<open>fetch\<close>. The source sends \<^verbatim>\<open>JSON.stringify(body)\<close>; the
  model keeps the value that is serialised.
\<close>

record fetch_request =
  url :: jsstring
  http_method :: jsstring
  headers :: "(jsstring \<times> jsstring) list"
  payload :: jsval

text \<open>
  What \<^verbatim>\<open>fetch\<close> resolves to: the HTTP status and what \<^verbatim>\<open>apiResponse.json()\<close> gives,
  the decoded body or the error of the decoding. \<^verbatim>\<open>apiResponse.ok\<close> is, in node-fetch as
  in the Fetch standard, a status from 200 to 299.
\<close>

record api_response =
  api_status :: nat
  api_json :: "exn + jsval"

definition ok :: "api_response \<Rightarrow> bool" where
  "ok r = (200 \<le> api_status r \<and> api_status r < 300)"

datatype fetch_outcome = Rejects exn | Resolves api_response

text \<open>What the handler does besides answering: outbound calls and \<^verbatim>\<open>console.error\<close>.\<close>

datatype logged = LoggedValue jsval | LoggedError exn

datatype effect = Fetch fetch_request | ConsoleError jsstring "logged list"

text \<open>The answer written with \<^verbatim>\<open>res.status(..).json(..)\<close>; \<^verbatim>\<open>res.json\<close> alone is status 200.\<close>

record http_response =
  status :: nat
  body :: jsval

text \<open>A run of the handler: it throws or it answers, and the effects in their order.\<close>

record handled =
  outcome :: "exn + http_response"
  effects :: "effect list"

definition reply_body :: "jsval \<Rightarrow> jsval" where
  "reply_body v = JObject [(ascii ''reply'', v)]"

text \<open>The fixed reply texts, lines 99, 104, 128, 134 and 140. U+1F4DE is the pair D83D, DCDE.\<close>

definition reply_invalid :: jsstring where
  "reply_invalid = ascii ''Missing or invalid query.''"

definition reply_not_configured :: jsstring where
  "reply_not_configured =
     ascii ''AI is not configured at the moment. Please call the pharmacy directly. '' @
     [0xD83D, 0xDCDE] @ ascii '' Please consult a doctor for serious advice.''"

definition reply_safety :: jsstring where
  "reply_safety = ascii ''I cannot answer that question due to safety guidelines. Please consult a doctor directly. Please consult a doctor for serious advice.''"

definition reply_fallback :: jsstring where
  \<open>reply_fallback = ascii ''Sorry, I'm not sure how to answer that safely. You can call or visit the store for help. Please consult a doctor for serious advice.''\<close>

definition reply_not_responding :: jsstring where
  "reply_not_responding =
     ascii ''AI is currently not responding. Please call the pharmacy directly. '' @
     [0xD83D, 0xDCDE] @ ascii '' Please consult a doctor for serious advice.''"

subsection \<open>The handler of POST /api/ai\<close>

text \<open>
  Lines 109 to 117: the arguments of \<^verbatim>\<open>fetch\<close>. \<^verbatim>\<open>MODEL_NAME\<close> is read from the
  environment here, at each request; the key is the constant of the module.
\<close>

definition gemini_request :: "jsstring \<Rightarrow> env \<Rightarrow> jsval \<Rightarrow> fetch_request" where
  "gemini_request key e query =
     (let MODEL_NAME = (case e (ascii ''GOOGLE_MODEL'') of
                          None \<Rightarrow> ascii ''gemini-2.5-flash''
                        | Some m \<Rightarrow> (if m = [] then ascii ''gemini-2.5-flash'' else m))
      in \<lparr> url = ascii ''https://generativelanguage.googleapis.com/v1/models/'' @ MODEL_NAME
                   @ ascii '':generateContent?key='' @ key,
            http_method = ascii ''POST'',
            headers = [(ascii ''Content-Type'', ascii ''application/json'')],
            payload = buildGeminiBody query \<rparr>)"

text \<open>
  Lines 108 to 136, the body of \<^verbatim>\<open>try\<close>: the result is what the block returns or the
  error it throws, with the effects up to there.
\<close>

definition try_block ::
  "jsstring \<Rightarrow> env \<Rightarrow> (fetch_request \<Rightarrow> fetch_outcome) \<Rightarrow> jsval \<Rightarrow> (exn + http_response) \<times> effect list"
where
  "try_block key e fetch query =
     (let request = gemini_request key e query
      in case fetch request of
           Rejects err \<Rightarrow> (Inl err, [Fetch request])
         | Resolves apiResponse \<Rightarrow>
             (case api_json apiResponse of
                Inl err \<Rightarrow> (Inl err, [Fetch request])
              | Inr data \<Rightarrow>
                  (let log = (if ok apiResponse then []
                              else [ConsoleError (ascii ''Gemini API HTTP error:'')
                                      [LoggedValue (JNumber (Num (of_nat (api_status apiResponse)))),
                                       LoggedValue data]])
                   in if truthy (opt_member (opt_member data (ascii ''promptFeedback'')) (ascii ''blockReason''))
                      then (case member data (ascii ''promptFeedback'') of
                              Inl err \<Rightarrow> (Inl err, Fetch request # log)
                            | Inr feedback \<Rightarrow>
                                (Inr \<lparr> status = 200, body = reply_body (JString reply_safety) \<rparr>,
                                 Fetch request # log @
                                   [ConsoleError (ascii ''Prompt blocked:'') [LoggedValue feedback]]))
                      else (Inr \<lparr> status = 200,
                                  body = reply_body
                                    (js_or
                                      (opt_member (opt_member (opt_member (opt_member (opt_member
                                         (opt_member data (ascii ''candidates'')) (ascii ''0''))
                                         (ascii ''content'')) (ascii ''parts'')) (ascii ''0''))
                                         (ascii ''text''))
                                      (JString reply_fallback)) \<rparr>,
                            Fetch request # log))))"

text \<open>
  Lines 95 to 143. The constants of the module come in \<open>cfg\<close>, the environment at the
  time of the request in \<open>e\<close>, the parsed request body (\<^verbatim>\<open>req.body\<close>, \<^verbatim>\<open>undefined\<close> when
  there is none) in \<open>req_body\<close>. The destructuring of line 96 reads the property
  \<^verbatim>\<open>query\<close> and would throw on \<^verbatim>\<open>undefined\<close> and \<^verbatim>\<open>null\<close>.
\<close>

definition api_ai ::
  "config \<Rightarrow> env \<Rightarrow> (fetch_request \<Rightarrow> fetch_outcome) \<Rightarrow> jsval \<Rightarrow> handled"
where
  "api_ai cfg e fetch req_body =
     (let not_configured =
            \<lparr> outcome = Inr \<lparr> status = 500, body = reply_body (JString reply_not_configured) \<rparr>,
              effects = [] \<rparr>
      in case member (js_or req_body (JObject [])) (ascii ''query'') of
           Inl err \<Rightarrow> \<lparr> outcome = Inl err, effects = [] \<rparr>
         | Inr query \<Rightarrow>
             if \<not> truthy query \<or> typeof query \<noteq> ascii ''string''
             then \<lparr> outcome = Inr \<lparr> status = 400, body = reply_body (JString reply_invalid) \<rparr>,
                    effects = [] \<rparr>
             else (case GOOGLE_API_KEY cfg of
                     None \<Rightarrow> not_configured
                   | Some key \<Rightarrow>
                       if key = [] then not_configured
                       else (case try_block key e fetch query of
                               (Inl err, trace) \<Rightarrow>
                                 \<lparr> outcome = Inr \<lparr> status = 500,
                                                    body = reply_body (JString reply_not_responding) \<rparr>,
                                   effects = trace @
                                     [ConsoleError (ascii ''Gemini API error:'') [LoggedError err]] \<rparr>
                             | (Inr response, trace) \<Rightarrow>
                                 \<lparr> outcome = Inr response, effects = trace \<rparr>)))"

subsection \<open>The terms of the specification\<close>

text \<open>
  The value at a path of a body: \<^verbatim>\<open>undefined\<close> when the path is not
  present.
\<close>

definition value_at :: "jsval \<Rightarrow> jsstring list \<Rightarrow> jsval" where
  "value_at v ks = (case field_at v ks of None \<Rightarrow> JUndefined | Some w \<Rightarrow> w)"

definition block_path :: "jsstring list" where
  "block_path = [ascii ''promptFeedback'', ascii ''blockReason'']"

definition text_path :: "jsstring list" where
  "text_path = [ascii ''candidates'', ascii ''0'', ascii ''content'', ascii ''parts'', ascii ''0'',
                ascii ''text'']"

text \<open>
  The response interpreter of the specification (section 4.3), with its precedence: the
  safety refusal, then the generated text, then the fallback. A field counts as given
  when JavaScript counts its value as true.
\<close>

definition response_interpreter :: "jsval \<Rightarrow> jsval" where
  "response_interpreter data =
     (if truthy (value_at data block_path) then JString reply_safety
      else if truthy (value_at data text_path) then value_at data text_path
      else JString reply_fallback)"





text \<open>A mocked upstream: the same outcome for every request.\<close>

definition mock_upstream :: "fetch_outcome \<Rightarrow> fetch_request \<Rightarrow> fetch_outcome" where
  "mock_upstream out request = out"

subsection \<open>Example inputs\<close>

text \<open>
  A process started with a key and no model name, the same process after
  \<^verbatim>\<open>GOOGLE_MODEL\<close> has been set, a request with a query, and upstream bodies with a
  candidate text and with a block reason.
\<close>

definition startup_env :: env where
  "startup_env = [ascii ''GOOGLE_API_KEY'' \<mapsto> ascii ''secret'']"

definition example_config :: config where
  "example_config = load_config startup_env"

definition changed_env :: env where
  "changed_env = startup_env(ascii ''GOOGLE_MODEL'' \<mapsto> ascii ''gemini-pro'')"

definition example_request :: jsval where
  "example_request = JObject [(ascii ''query'', JString (ascii ''Hi''))]"

definition candidates_body :: "jsval \<Rightarrow> jsval" where
  "candidates_body t =
     JObject [(ascii ''candidates'',
       JArray [JObject [(ascii ''content'',
         JObject [(ascii ''parts'', JArray [JObject [(ascii ''text'', t)]])])]])]"

definition blocked_body :: "jsval \<Rightarrow> jsval \<Rightarrow> jsval" where
  "blocked_body reason t =
     JObject [(ascii ''promptFeedback'', JObject [(ascii ''blockReason'', reason)]),
              (ascii ''candidates'',
       JArray [JObject [(ascii ''content'',
         JObject [(ascii ''parts'', JArray [JObject [(ascii ''text'', t)]])])]])]"

definition responds :: "nat \<Rightarrow> jsval \<Rightarrow> fetch_outcome" where
  "responds code data = Resolves \<lparr> api_status = code, api_json = Inr data \<rparr>"

text \<open>
  An upstream that knows one model: it answers the URL of \<^verbatim>\<open>gemini-2.5-flash\<close> with a
  candidate text and every other URL with status 404 and an error body.
\<close>

definition flash_only_upstream :: "fetch_request \<Rightarrow> fetch_outcome" where
  "flash_only_upstream request =
     (if url request = ascii ''https://generativelanguage.googleapis.com/v1/models/gemini-2.5-flash:generateContent?key=secret''
      then responds 200 (candidates_body (JString (ascii ''1. Take with water'')))
      else responds 404 (JObject [(ascii ''error'', JObject [(ascii ''code'', JNumber (Num 404))])]))"

section \<open>Properties\<close>

subsection \<open>Strings and property access\<close>

lemma unat_of_char16: "unat (of_char c :: 16 word) = of_char c"
proof -
  have "(of_char c :: nat) < 256"
    by (metis of_char_mod_256 mod_less_divisor zero_less_numeral)
  also have "(256::nat) < 2 ^ LENGTH(16)" by simp
  finally have "unat (of_nat (of_char c) :: 16 word) = of_char c"
    by (simp add: unat_of_nat)
  then show ?thesis by (simp add: of_nat_of_char)
qed

lemma of_char16_inject: "(of_char c :: 16 word) = of_char d \<longleftrightarrow> c = d"
  by (metis unat_of_char16 of_char_eq_iff)

lemma ascii_inject [simp]: "ascii s = ascii t \<longleftrightarrow> s = t"
  unfolding ascii_def by (rule inj_map_eq_map) (simp add: inj_on_def of_char16_inject)

lemma ascii_Nil [simp]: "ascii s = [] \<longleftrightarrow> s = []"
  by (simp add: ascii_def)

lemma typeof_string: "typeof v = ascii ''string'' \<longleftrightarrow> (\<exists>s. v = JString s)"
  by (cases v) simp_all

lemma opt_member_own: "opt_member v k = (case own_property v k of None \<Rightarrow> JUndefined | Some w \<Rightarrow> w)"
  by (cases v) (simp_all add: opt_member_def nullish_def)

lemma foldl_opt_member_undefined: "foldl opt_member JUndefined ks = JUndefined"
  by (induction ks) (simp_all add: opt_member_def nullish_def)

lemma chain_value_at: "foldl opt_member v ks = value_at v ks"
proof (induction ks arbitrary: v)
  case Nil
  show ?case by (simp add: value_at_def)
next
  case (Cons k ks)
  show ?case
  proof (cases "own_property v k")
    case None
    then have "opt_member v k = JUndefined"
      by (simp add: opt_member_own)
    with None show ?thesis
      by (simp add: value_at_def foldl_opt_member_undefined)
  next
    case (Some w)
    then have "opt_member v k = w"
      by (simp add: opt_member_own)
    with Some show ?thesis
      using Cons.IH [of w] by (simp add: value_at_def)
  qed
qed

lemma block_chain:
  "opt_member (opt_member data (ascii ''promptFeedback'')) (ascii ''blockReason'') = value_at data block_path"
  using chain_value_at [of data block_path] by (simp add: block_path_def)

lemma text_chain:
  "opt_member (opt_member (opt_member (opt_member (opt_member
     (opt_member data (ascii ''candidates'')) (ascii ''0''))
     (ascii ''content'')) (ascii ''parts'')) (ascii ''0'')) (ascii ''text'') = value_at data text_path"
  using chain_value_at [of data text_path] by (simp add: text_path_def)

lemma array_index_query [simp]: "array_index (ascii ''query'') = None"
  by (simp add: array_index_def ascii_def is_digit_def)

lemma array_index_0 [simp]: "array_index (ascii ''0'') = Some 0"
  by (simp add: array_index_def ascii_def is_digit_def)

lemma query_read:
  "member (js_or b (JObject [])) (ascii ''query'') = Inr (value_at b [ascii ''query''])"
proof (cases "truthy b")
  case True
  then have "\<not> nullish b" by (auto simp: nullish_def)
  with True show ?thesis
    by (simp add: js_or_def member_def value_at_def split: option.splits)
next
  case False
  then have "own_property b (ascii ''query'') = None"
    by (cases b rule: truthy.cases) simp_all
  with False show ?thesis
    by (simp add: js_or_def member_def value_at_def nullish_def)
qed

subsection \<open>The handler on a valid request\<close>

lemma api_ai_valid:
  assumes "field_at b [ascii ''query''] = Some (JString q)" and "q \<noteq> []"
    and "GOOGLE_API_KEY cfg = Some key" and "key \<noteq> []"
  shows "api_ai cfg e fetch b =
    (case try_block key e fetch (JString q) of
       (Inl err, trace) \<Rightarrow>
         \<lparr> outcome = Inr \<lparr> status = 500, body = reply_body (JString reply_not_responding) \<rparr>,
           effects = trace @ [ConsoleError (ascii ''Gemini API error:'') [LoggedError err]] \<rparr>
     | (Inr response, trace) \<Rightarrow> \<lparr> outcome = Inr response, effects = trace \<rparr>)"
proof -
  from assms(1) have "value_at b [ascii ''query''] = JString q"
    by (simp add: value_at_def)
  then have "member (js_or b (JObject [])) (ascii ''query'') = Inr (JString q)"
    by (simp add: query_read)
  with assms(2-4) show ?thesis
    by (simp add: api_ai_def)
qed

lemma member_feedback:
  assumes "truthy (value_at data block_path)"
  shows "member data (ascii ''promptFeedback'') = Inr (value_at data [ascii ''promptFeedback''])"
proof -
  from assms have "own_property data (ascii ''promptFeedback'') \<noteq> None"
    by (auto simp: value_at_def block_path_def split: option.splits)
  then have "\<not> nullish data"
    by (auto simp: nullish_def)
  then show ?thesis
    by (simp add: member_def value_at_def split: option.splits)
qed

lemma try_block_decoded:
  assumes "fetch (gemini_request key e query) = Resolves r" and "api_json r = Inr data"
  shows "fst (try_block key e fetch query) =
           Inr \<lparr> status = 200, body = reply_body (response_interpreter data) \<rparr>"
proof (cases "truthy (value_at data block_path)")
  case True
  with assms show ?thesis
    by (simp add: try_block_def Let_def block_chain member_feedback response_interpreter_def)
next
  case False
  with assms show ?thesis
    by (simp add: try_block_def Let_def block_chain text_chain response_interpreter_def js_or_def)
qed

lemma api_ai_decoded:
  assumes "field_at b [ascii ''query''] = Some (JString q)" and "q \<noteq> []"
    and "GOOGLE_API_KEY cfg = Some key" and "key \<noteq> []"
    and "fetch (gemini_request key e (JString q)) = Resolves r" and "api_json r = Inr data"
  shows "outcome (api_ai cfg e fetch b) =
           Inr \<lparr> status = 200, body = reply_body (response_interpreter data) \<rparr>"
proof -
  obtain res trace where t: "try_block key e fetch (JString q) = (res, trace)"
    by (cases "try_block key e fetch (JString q)")
  with try_block_decoded [of fetch key e "JString q" r data] assms(5,6)
  have "res = Inr \<lparr> status = 200, body = reply_body (response_interpreter data) \<rparr>"
    by simp
  with t show ?thesis
    by (simp add: api_ai_valid [OF assms(1-4)])
qed

lemma field_candidates_body [simp]:
  "field_at (candidates_body t) text_path = Some t"
  "field_at (candidates_body t) block_path = None"
  by (simp_all add: candidates_body_def text_path_def block_path_def)

lemma field_blocked_body [simp]:
  "field_at (blocked_body reason t) text_path = Some t"
  "field_at (blocked_body reason t) block_path = Some reason"
  by (simp_all add: blocked_body_def text_path_def block_path_def)

lemma example_request_query [simp]:
  "field_at example_request [ascii ''query''] = Some (JString (ascii ''Hi''))"
  by (simp add: example_request_def)

lemma example_config_key [simp]:
  "GOOGLE_API_KEY example_config = Some (ascii ''secret'')"
  by (simp add: example_config_def load_config_def startup_env_def)

lemma reply_fallback_nonempty [simp]: "reply_fallback \<noteq> []"
  by (simp add: reply_fallback_def)

lemma reply_safety_nonempty [simp]: "reply_safety \<noteq> []"
  by (simp add: reply_safety_def)

lemma field_empty_object [simp]:
  "field_at (JObject []) block_path = None"
  "field_at (JObject []) text_path = None"
  by (simp_all add: block_path_def text_path_def)

subsection \<open>The generated text\<close>

text \<open>
  C1, as amended. A request with a query that is a non-empty string reaches a configured
  process; the upstream call resolves and its body decodes to \<open>data\<close>. If \<open>data\<close> has no
  field \<^verbatim>\<open>promptFeedback.blockReason\<close> and has at
  \<^verbatim>\<open>candidates[0].content.parts[0].text\<close> a string that is not empty, the handler
  answers with status 200 and that string, unchanged, as the reply.
\<close>

theorem text_reply_verbatim:
  assumes "field_at b [ascii ''query''] = Some (JString q)" and "q \<noteq> []"
    and "GOOGLE_API_KEY cfg = Some key" and "key \<noteq> []"
    and "fetch (gemini_request key e (JString q)) = Resolves r" and "api_json r = Inr data"
    and "field_at data block_path = None"
    and "field_at data text_path = Some (JString t)" and "t \<noteq> []"
  shows "outcome (api_ai cfg e fetch b) = Inr \<lparr> status = 200, body = reply_body (JString t) \<rparr>"
  using api_ai_decoded [where b = b and q = q and cfg = cfg and key = key and fetch = fetch
      and e = e and r = r and data = data] assms
  by (simp add: response_interpreter_def value_at_def)

theorem text_reply_verbatim_witness:
  "outcome (api_ai example_config startup_env
      (mock_upstream (responds 200 (candidates_body (JString (ascii ''1. Take with water'')))))
      example_request)
   = Inr \<lparr> status = 200, body = reply_body (JString (ascii ''1. Take with water'')) \<rparr>"
  using text_reply_verbatim [where b = example_request and q = "ascii ''Hi''"
      and cfg = example_config and key = "ascii ''secret''" and e = startup_env
      and fetch = "mock_upstream (responds 200 (candidates_body (JString (ascii ''1. Take with water''))))"
      and r = "\<lparr> api_status = 200, api_json = Inr (candidates_body (JString (ascii ''1. Take with water''))) \<rparr>"
      and data = "candidates_body (JString (ascii ''1. Take with water''))"
      and t = "ascii ''1. Take with water''"]
  by (simp add: mock_upstream_def responds_def del: field_at.simps)

text \<open>
  C1 as it is stated fails where the text is present and empty: the reply is the fallback
  text, not the empty string.
\<close>

theorem empty_text_counterexample:
  "field_at (candidates_body (JString [])) block_path = None \<and>
   field_at (candidates_body (JString [])) text_path = Some (JString []) \<and>
   outcome (api_ai example_config startup_env
      (mock_upstream (responds 200 (candidates_body (JString [])))) example_request)
     = Inr \<lparr> status = 200, body = reply_body (JString reply_fallback) \<rparr> \<and>
   reply_body (JString reply_fallback) \<noteq> reply_body (JString [])"
  using api_ai_decoded [where b = example_request and q = "ascii ''Hi''"
      and cfg = example_config and key = "ascii ''secret''" and e = startup_env
      and fetch = "mock_upstream (responds 200 (candidates_body (JString [])))"
      and r = "\<lparr> api_status = 200, api_json = Inr (candidates_body (JString [])) \<rparr>"
      and data = "candidates_body (JString [])"]
  by (simp add: mock_upstream_def responds_def response_interpreter_def value_at_def reply_body_def
      del: field_at.simps)

subsection \<open>The safety block\<close>

text \<open>
  C2, as amended. On a valid request to a configured process whose upstream call resolves
  with a body that decodes to \<open>data\<close>: if \<open>data\<close> has at \<^verbatim>\<open>promptFeedback.blockReason\<close>
  a value that JavaScript counts as true (for a string: a non-empty one), the handler
  answers with status 200 and the fixed safety refusal, whatever else the body holds, a
  candidate text included.
\<close>

theorem safety_block_first:
  assumes "field_at b [ascii ''query''] = Some (JString q)" and "q \<noteq> []"
    and "GOOGLE_API_KEY cfg = Some key" and "key \<noteq> []"
    and "fetch (gemini_request key e (JString q)) = Resolves r" and "api_json r = Inr data"
    and "field_at data block_path = Some reason" and "truthy reason"
  shows "outcome (api_ai cfg e fetch b) =
           Inr \<lparr> status = 200, body = reply_body (JString reply_safety) \<rparr>"
  using api_ai_decoded [where b = b and q = q and cfg = cfg and key = key and fetch = fetch
      and e = e and r = r and data = data] assms
  by (simp add: response_interpreter_def value_at_def)

theorem safety_block_first_witness:
  "outcome (api_ai example_config startup_env
      (mock_upstream (responds 200
         (blocked_body (JString (ascii ''SAFETY'')) (JString (ascii ''1. Take with water'')))))
      example_request)
   = Inr \<lparr> status = 200, body = reply_body (JString reply_safety) \<rparr>"
  using safety_block_first [where b = example_request and q = "ascii ''Hi''"
      and cfg = example_config and key = "ascii ''secret''" and e = startup_env
      and fetch = "mock_upstream (responds 200
         (blocked_body (JString (ascii ''SAFETY'')) (JString (ascii ''1. Take with water''))))"
      and r = "\<lparr> api_status = 200, api_json = Inr
         (blocked_body (JString (ascii ''SAFETY'')) (JString (ascii ''1. Take with water''))) \<rparr>"
      and data = "blocked_body (JString (ascii ''SAFETY'')) (JString (ascii ''1. Take with water''))"
      and reason = "JString (ascii ''SAFETY'')"]
  by (simp add: mock_upstream_def responds_def del: field_at.simps)

text \<open>
  C2 as it is stated fails where the block reason is present and empty: the candidate
  text is the reply.
\<close>

theorem empty_block_reason_counterexample:
  "field_at (blocked_body (JString []) (JString (ascii ''1. Take with water''))) block_path
     = Some (JString []) \<and>
   outcome (api_ai example_config startup_env
      (mock_upstream (responds 200
         (blocked_body (JString []) (JString (ascii ''1. Take with water'')))))
      example_request)
     = Inr \<lparr> status = 200, body = reply_body (JString (ascii ''1. Take with water'')) \<rparr> \<and>
   reply_body (JString (ascii ''1. Take with water'')) \<noteq> reply_body (JString reply_safety)"
  using api_ai_decoded [where b = example_request and q = "ascii ''Hi''"
      and cfg = example_config and key = "ascii ''secret''" and e = startup_env
      and fetch = "mock_upstream (responds 200
         (blocked_body (JString []) (JString (ascii ''1. Take with water''))))"
      and r = "\<lparr> api_status = 200, api_json = Inr
         (blocked_body (JString []) (JString (ascii ''1. Take with water''))) \<rparr>"
      and data = "blocked_body (JString []) (JString (ascii ''1. Take with water''))"]
  by (simp add: mock_upstream_def responds_def response_interpreter_def value_at_def reply_body_def
      reply_safety_def del: field_at.simps)

subsection \<open>The fallback\<close>

text \<open>
  C3. On a valid request to a configured process whose upstream call resolves with a body
  that decodes to \<open>data\<close>: if \<open>data\<close> has neither the field
  \<^verbatim>\<open>promptFeedback.blockReason\<close> nor a field at
  \<^verbatim>\<open>candidates[0].content.parts[0].text\<close>, the handler answers with status 200 and the
  fixed fallback text.
\<close>

theorem no_text_fallback:
  assumes "field_at b [ascii ''query''] = Some (JString q)" and "q \<noteq> []"
    and "GOOGLE_API_KEY cfg = Some key" and "key \<noteq> []"
    and "fetch (gemini_request key e (JString q)) = Resolves r" and "api_json r = Inr data"
    and "field_at data block_path = None" and "field_at data text_path = None"
  shows "outcome (api_ai cfg e fetch b) =
           Inr \<lparr> status = 200, body = reply_body (JString reply_fallback) \<rparr>"
  using api_ai_decoded [where b = b and q = q and cfg = cfg and key = key and fetch = fetch
      and e = e and r = r and data = data] assms
  by (simp add: response_interpreter_def value_at_def)

theorem no_text_fallback_witness:
  "outcome (api_ai example_config startup_env (mock_upstream (responds 200 (JObject [])))
      example_request)
   = Inr \<lparr> status = 200, body = reply_body (JString reply_fallback) \<rparr>"
  using no_text_fallback [where b = example_request and q = "ascii ''Hi''"
      and cfg = example_config and key = "ascii ''secret''" and e = startup_env
      and fetch = "mock_upstream (responds 200 (JObject []))"
      and r = "\<lparr> api_status = 200, api_json = Inr (JObject []) \<rparr>"
      and data = "JObject []"]
  by (simp add: mock_upstream_def responds_def del: field_at.simps)

subsection \<open>Invalid input\<close>

text \<open>
  C4. When the request body is absent, or has no field \<^verbatim>\<open>query\<close>, or its \<^verbatim>\<open>query\<close>
  is not a string, or is the empty string, the handler answers with status 400 and the
  body \<^verbatim>\<open>{ reply: "Missing or invalid query." }\<close>; it does not throw and it has no
  effect, so no outbound call is made. This holds for every configuration, environment
  and upstream.
\<close>

theorem invalid_query_rejected:
  assumes "b = JUndefined
     \<or> field_at b [ascii ''query''] = None
     \<or> (\<exists>v. field_at b [ascii ''query''] = Some v \<and> (\<forall>s. v \<noteq> JString s))
     \<or> field_at b [ascii ''query''] = Some (JString [])"
  shows "api_ai cfg e fetch b =
           \<lparr> outcome = Inr \<lparr> status = 400, body = reply_body (JString reply_invalid) \<rparr>,
             effects = [] \<rparr>"
proof -
  let ?query = "value_at b [ascii ''query'']"
  from assms consider
      (absent) "field_at b [ascii ''query''] = None"
    | (other) v where "field_at b [ascii ''query''] = Some v" and "\<forall>s. v \<noteq> JString s"
    | (empty) "field_at b [ascii ''query''] = Some (JString [])"
    by auto
  then have "\<not> truthy ?query \<or> typeof ?query \<noteq> ascii ''string''"
  proof cases
    case absent
    then show ?thesis by (simp add: value_at_def)
  next
    case other
    then show ?thesis by (simp add: value_at_def typeof_string)
  next
    case empty
    then show ?thesis by (simp add: value_at_def)
  qed
  then show ?thesis
    by (auto simp: api_ai_def query_read)
qed

theorem invalid_query_rejected_witness:
  "api_ai example_config startup_env (mock_upstream (responds 200 (JObject []))) JUndefined =
     \<lparr> outcome = Inr \<lparr> status = 400, body = reply_body (JString reply_invalid) \<rparr>, effects = [] \<rparr>
   \<and> api_ai example_config startup_env (mock_upstream (responds 200 (JObject [])))
         (JObject [(ascii ''query'', JNumber (Num 5))]) =
     \<lparr> outcome = Inr \<lparr> status = 400, body = reply_body (JString reply_invalid) \<rparr>, effects = [] \<rparr>
   \<and> api_ai example_config startup_env (mock_upstream (responds 200 (JObject [])))
         (JObject [(ascii ''query'', JString [])]) =
     \<lparr> outcome = Inr \<lparr> status = 400, body = reply_body (JString reply_invalid) \<rparr>, effects = [] \<rparr>"
  using invalid_query_rejected [where b = JUndefined]
    invalid_query_rejected [where b = "JObject [(ascii ''query'', JNumber (Num 5))]"]
    invalid_query_rejected [where b = "JObject [(ascii ''query'', JString [])]"]
  by simp

subsection \<open>No credential\<close>

text \<open>
  C5. When the module has no API key, every request with a query that is a non-empty
  string is answered with status 500 and the fixed text for a process that is not
  configured, whatever the query; the handler has no effect, so no outbound call is made.
\<close>

theorem not_configured_is_500:
  assumes "field_at b [ascii ''query''] = Some (JString q)" and "q \<noteq> []"
    and "GOOGLE_API_KEY cfg = None"
  shows "api_ai cfg e fetch b =
           \<lparr> outcome = Inr \<lparr> status = 500, body = reply_body (JString reply_not_configured) \<rparr>,
             effects = [] \<rparr>"
proof -
  from assms(1) have "value_at b [ascii ''query''] = JString q"
    by (simp add: value_at_def)
  with assms(2,3) show ?thesis
    by (simp add: api_ai_def query_read)
qed

theorem not_configured_is_500_witness:
  "api_ai (load_config Map.empty) startup_env (mock_upstream (responds 200 (JObject [])))
      example_request =
     \<lparr> outcome = Inr \<lparr> status = 500, body = reply_body (JString reply_not_configured) \<rparr>,
       effects = [] \<rparr>"
  using not_configured_is_500 [where b = example_request and q = "ascii ''Hi''"
      and cfg = "load_config Map.empty"]
  by (simp add: load_config_def del: field_at.simps)

subsection \<open>Upstream failure\<close>

text \<open>
  C6. On a valid request to a configured process: when the outbound call rejects with an
  error, or resolves and the decoding of its body fails with an error, the handler
  answers with status 500 and the fixed text for an upstream that does not respond. The
  response is this one value whatever the error is; the error goes to
  \<^verbatim>\<open>console.error\<close> and nowhere else.
\<close>

theorem upstream_failure_is_500:
  assumes "field_at b [ascii ''query''] = Some (JString q)" and "q \<noteq> []"
    and "GOOGLE_API_KEY cfg = Some key" and "key \<noteq> []"
    and "fetch (gemini_request key e (JString q)) = Rejects err
         \<or> (\<exists>r. fetch (gemini_request key e (JString q)) = Resolves r \<and> api_json r = Inl err)"
  shows "api_ai cfg e fetch b =
           \<lparr> outcome = Inr \<lparr> status = 500, body = reply_body (JString reply_not_responding) \<rparr>,
             effects = [Fetch (gemini_request key e (JString q)),
                        ConsoleError (ascii ''Gemini API error:'') [LoggedError err]] \<rparr>"
proof -
  from assms(5)
  have "try_block key e fetch (JString q) = (Inl err, [Fetch (gemini_request key e (JString q))])"
    by (auto simp: try_block_def Let_def)
  then show ?thesis
    by (simp add: api_ai_valid [OF assms(1-4)])
qed

theorem upstream_failure_is_500_witness:
  "api_ai example_config startup_env
      (mock_upstream (Rejects (FetchError (ascii ''ECONNRESET'')))) example_request =
     \<lparr> outcome = Inr \<lparr> status = 500, body = reply_body (JString reply_not_responding) \<rparr>,
       effects = [Fetch (gemini_request (ascii ''secret'') startup_env (JString (ascii ''Hi''))),
                  ConsoleError (ascii ''Gemini API error:'')
                    [LoggedError (FetchError (ascii ''ECONNRESET''))]] \<rparr>
   \<and> api_ai example_config startup_env
      (mock_upstream (Resolves \<lparr> api_status = 200,
         api_json = Inl (SyntaxError (ascii ''Unexpected token <'')) \<rparr>)) example_request =
     \<lparr> outcome = Inr \<lparr> status = 500, body = reply_body (JString reply_not_responding) \<rparr>,
       effects = [Fetch (gemini_request (ascii ''secret'') startup_env (JString (ascii ''Hi''))),
                  ConsoleError (ascii ''Gemini API error:'')
                    [LoggedError (SyntaxError (ascii ''Unexpected token <''))]] \<rparr>"
  using upstream_failure_is_500 [where b = example_request and q = "ascii ''Hi''"
      and cfg = example_config and key = "ascii ''secret''" and e = startup_env
      and fetch = "mock_upstream (Rejects (FetchError (ascii ''ECONNRESET'')))"
      and err = "FetchError (ascii ''ECONNRESET'')"]
    upstream_failure_is_500 [where b = example_request and q = "ascii ''Hi''"
      and cfg = example_config and key = "ascii ''secret''" and e = startup_env
      and fetch = "mock_upstream (Resolves \<lparr> api_status = 200,
         api_json = Inl (SyntaxError (ascii ''Unexpected token <'')) \<rparr>)"
      and err = "SyntaxError (ascii ''Unexpected token <'')"]
  by (simp add: mock_upstream_def del: field_at.simps)

subsection \<open>Upstream HTTP errors\<close>

text \<open>
  C7. On a valid request to a configured process: when the upstream response has a status
  outside 200 to 299 and its body decodes to \<open>data\<close>, the handler logs the status and the
  body and goes on as for a status in that range: it answers with status 200 and the reply
  that the precedence of the interpreter gives for \<open>data\<close> (safety refusal, then text,
  then fallback). It does not take the path of status 500.
\<close>

theorem http_error_status_not_fatal:
  assumes "field_at b [ascii ''query''] = Some (JString q)" and "q \<noteq> []"
    and "GOOGLE_API_KEY cfg = Some key" and "key \<noteq> []"
    and "fetch (gemini_request key e (JString q)) = Resolves r" and "api_json r = Inr data"
    and "api_status r < 200 \<or> 300 \<le> api_status r"
  shows "api_ai cfg e fetch b =
           \<lparr> outcome = Inr \<lparr> status = 200, body = reply_body (response_interpreter data) \<rparr>,
             effects =
               Fetch (gemini_request key e (JString q)) #
               ConsoleError (ascii ''Gemini API HTTP error:'')
                 [LoggedValue (JNumber (Num (of_nat (api_status r)))), LoggedValue data] #
               (if truthy (value_at data block_path)
                then [ConsoleError (ascii ''Prompt blocked:'')
                        [LoggedValue (value_at data [ascii ''promptFeedback''])]]
                else []) \<rparr>"
proof -
  from assms(7) have "\<not> ok r"
    by (auto simp: ok_def)
  with assms(5,6)
  have "try_block key e fetch (JString q) =
          (Inr \<lparr> status = 200, body = reply_body (response_interpreter data) \<rparr>,
           Fetch (gemini_request key e (JString q)) #
           ConsoleError (ascii ''Gemini API HTTP error:'')
             [LoggedValue (JNumber (Num (of_nat (api_status r)))), LoggedValue data] #
           (if truthy (value_at data block_path)
            then [ConsoleError (ascii ''Prompt blocked:'')
                    [LoggedValue (value_at data [ascii ''promptFeedback''])]]
            else []))"
    by (simp add: try_block_def Let_def block_chain text_chain member_feedback
        response_interpreter_def js_or_def)
  then show ?thesis
    by (simp add: api_ai_valid [OF assms(1-4)])
qed

theorem http_error_status_not_fatal_witness:
  "outcome (api_ai example_config startup_env
      (mock_upstream (responds 503 (candidates_body (JString (ascii ''1. Take with water'')))))
      example_request)
   = Inr \<lparr> status = 200, body = reply_body (JString (ascii ''1. Take with water'')) \<rparr>"
  using http_error_status_not_fatal [where b = example_request and q = "ascii ''Hi''"
      and cfg = example_config and key = "ascii ''secret''" and e = startup_env
      and fetch = "mock_upstream (responds 503 (candidates_body (JString (ascii ''1. Take with water''))))"
      and r = "\<lparr> api_status = 503, api_json = Inr (candidates_body (JString (ascii ''1. Take with water''))) \<rparr>"
      and data = "candidates_body (JString (ascii ''1. Take with water''))"]
  by (simp add: mock_upstream_def responds_def response_interpreter_def value_at_def
      del: field_at.simps)

subsection \<open>Configuration and environment\<close>

lemma ascii_append: "ascii s @ ascii t = ascii (s @ t)"
  by (simp add: ascii_def)

lemma gemini_request_env:
  "e1 (ascii ''GOOGLE_MODEL'') = e2 (ascii ''GOOGLE_MODEL'')
     \<Longrightarrow> gemini_request key e1 query = gemini_request key e2 query"
  by (simp add: gemini_request_def)

text \<open>
  C8, as amended. The API key and the port are read once, when the module is loaded, and
  stay fixed. The model name is read from the environment at each request. So the
  behaviour of the handler depends on the environment at the time of the request only
  through \<^verbatim>\<open>GOOGLE_MODEL\<close>: with the configuration of startup environment \<open>e0\<close>, two
  later environments that agree on \<^verbatim>\<open>GOOGLE_MODEL\<close> give the same run, whatever they
  say about \<^verbatim>\<open>GOOGLE_API_KEY\<close>, \<^verbatim>\<open>PORT\<close> or any other variable.
\<close>

theorem environment_only_through_model:
  assumes "e1 (ascii ''GOOGLE_MODEL'') = e2 (ascii ''GOOGLE_MODEL'')"
  shows "api_ai (load_config e0) e1 fetch b = api_ai (load_config e0) e2 fetch b"
proof -
  have same: "try_block key e1 fetch query = try_block key e2 fetch query" for key query
    using assms gemini_request_env [of e1 e2 key query] by (simp add: try_block_def)
  show ?thesis
    unfolding api_ai_def same ..
qed

theorem environment_only_through_model_witness:
  "api_ai (load_config startup_env) startup_env flash_only_upstream example_request =
   api_ai (load_config startup_env) (startup_env(ascii ''GOOGLE_API_KEY'' \<mapsto> ascii ''other'', ascii ''PORT'' \<mapsto> ascii ''8080'')) flash_only_upstream example_request"
  using environment_only_through_model [where ?e1.0 = startup_env
      and ?e2.0 = "startup_env(ascii ''GOOGLE_API_KEY'' \<mapsto> ascii ''other'', ascii ''PORT'' \<mapsto> ascii ''8080'')"
      and ?e0.0 = startup_env and fetch = flash_only_upstream and b = example_request]
  by (simp add: startup_env_def)

lemma url_startup:
  "url (gemini_request (ascii ''secret'') startup_env query) =
     ascii ''https://generativelanguage.googleapis.com/v1/models/gemini-2.5-flash:generateContent?key=secret''"
  by (simp add: gemini_request_def startup_env_def ascii_append)

lemma url_changed:
  "url (gemini_request (ascii ''secret'') changed_env query) =
     ascii ''https://generativelanguage.googleapis.com/v1/models/gemini-pro:generateContent?key=secret''"
  by (simp add: gemini_request_def changed_env_def startup_env_def ascii_append)

text \<open>
  C8 as it is stated fails for \<^verbatim>\<open>GOOGLE_MODEL\<close>: after startup with no model name,
  setting the variable changes the URL that is called, and with it the answer.
\<close>

theorem model_change_counterexample:
  "example_config = load_config startup_env \<and>
   outcome (api_ai example_config startup_env flash_only_upstream example_request)
     = Inr \<lparr> status = 200, body = reply_body (JString (ascii ''1. Take with water'')) \<rparr> \<and>
   outcome (api_ai example_config changed_env flash_only_upstream example_request)
     = Inr \<lparr> status = 200, body = reply_body (JString reply_fallback) \<rparr> \<and>
   reply_body (JString (ascii ''1. Take with water'')) \<noteq> reply_body (JString reply_fallback)"
proof -
  have 1: "flash_only_upstream (gemini_request (ascii ''secret'') startup_env (JString (ascii ''Hi'')))
             = Resolves \<lparr> api_status = 200, api_json = Inr (candidates_body (JString (ascii ''1. Take with water''))) \<rparr>"
    by (simp add: flash_only_upstream_def url_startup responds_def)
  have 2: "flash_only_upstream (gemini_request (ascii ''secret'') changed_env (JString (ascii ''Hi'')))
             = Resolves \<lparr> api_status = 404, api_json = Inr (JObject [(ascii ''error'', JObject [(ascii ''code'', JNumber (Num 404))])]) \<rparr>"
    by (simp add: flash_only_upstream_def url_changed responds_def)
  have 3: "response_interpreter (candidates_body (JString (ascii ''1. Take with water'')))
             = JString (ascii ''1. Take with water'')"
    by (simp add: response_interpreter_def value_at_def del: field_at.simps)
  have 4: "response_interpreter (JObject [(ascii ''error'', JObject [(ascii ''code'', JNumber (Num 404))])])
             = JString reply_fallback"
    by (simp add: response_interpreter_def value_at_def block_path_def text_path_def)
  have 5: "reply_body (JString (ascii ''1. Take with water'')) \<noteq> reply_body (JString reply_fallback)"
    by (simp add: reply_body_def reply_fallback_def)
  from api_ai_decoded [where fetch = flash_only_upstream, OF example_request_query _ example_config_key _ 1]
    api_ai_decoded [where fetch = flash_only_upstream, OF example_request_query _ example_config_key _ 2]
    3 4 5
  show ?thesis
    by (simp add: example_config_def del: field_at.simps)
qed

subsection \<open>The payload\<close>






subsection \<open>The reply is never empty\<close>

lemma response_interpreter_truthy: "truthy (response_interpreter data)"
  by (simp add: response_interpreter_def)

lemma try_block_reply_truthy:
  assumes "try_block key e fetch query = (Inr response, trace)"
  shows "\<exists>v. body response = reply_body v \<and> truthy v"
proof (cases "fetch (gemini_request key e query)")
  case (Rejects err)
  with assms show ?thesis
    by (simp add: try_block_def Let_def)
next
  case (Resolves r)
  show ?thesis
  proof (cases "api_json r")
    case (Inl err)
    with Resolves assms show ?thesis
      by (simp add: try_block_def Let_def)
  next
    case (Inr data)
    from try_block_decoded [where fetch = fetch, OF Resolves Inr] assms
    have "response = \<lparr> status = 200, body = reply_body (response_interpreter data) \<rparr>"
      by simp
    then show ?thesis
      by (auto simp: response_interpreter_truthy)
  qed
qed

lemma api_ai_200_reply_truthy:
  assumes "outcome (api_ai cfg e fetch b) = Inr response" and "status response = 200"
  shows "\<exists>v. body response = reply_body v \<and> truthy v"
proof -
  let ?query = "value_at b [ascii ''query'']"
  have valid: "\<not> (\<not> truthy ?query \<or> typeof ?query \<noteq> ascii ''string'')"
  proof
    assume "\<not> truthy ?query \<or> typeof ?query \<noteq> ascii ''string''"
    then have "outcome (api_ai cfg e fetch b) =
        Inr \<lparr> status = 400, body = reply_body (JString reply_invalid) \<rparr>"
      by (auto simp: api_ai_def query_read Let_def)
    with assms show False by auto
  qed
  have "\<not> (case GOOGLE_API_KEY cfg of None \<Rightarrow> True | Some key \<Rightarrow> key = [])"
  proof
    assume "case GOOGLE_API_KEY cfg of None \<Rightarrow> True | Some key \<Rightarrow> key = []"
    with valid have "outcome (api_ai cfg e fetch b) =
        Inr \<lparr> status = 500, body = reply_body (JString reply_not_configured) \<rparr>"
      by (auto simp: api_ai_def query_read Let_def split: option.splits)
    with assms show False by auto
  qed
  then obtain key where key: "GOOGLE_API_KEY cfg = Some key" "key \<noteq> []"
    by (cases "GOOGLE_API_KEY cfg") auto
  obtain res trace where t: "try_block key e fetch ?query = (res, trace)"
    by (cases "try_block key e fetch ?query")
  show ?thesis
  proof (cases res)
    case (Inl err)
    with valid key t assms show ?thesis
      by (auto simp: api_ai_def query_read Let_def)
  next
    case (Inr response')
    with valid key t assms have "response' = response"
      by (auto simp: api_ai_def query_read Let_def)
    with Inr t show ?thesis
      using try_block_reply_truthy by blast
  qed
qed

text \<open>
  C10. On a valid request to a configured process whose upstream body \<open>data\<close> has no
  field \<^verbatim>\<open>promptFeedback.blockReason\<close> and has the empty string at
  \<^verbatim>\<open>candidates[0].content.parts[0].text\<close>, the handler answers with status 200 and the
  fallback text. And in every run of the handler that answers with status 200, the reply
  is not the empty string.
\<close>

theorem empty_text_falls_back:
  assumes "field_at b [ascii ''query''] = Some (JString q)" and "q \<noteq> []"
    and "GOOGLE_API_KEY cfg = Some key" and "key \<noteq> []"
    and "fetch (gemini_request key e (JString q)) = Resolves r" and "api_json r = Inr data"
    and "field_at data block_path = None"
    and "field_at data text_path = Some (JString [])"
  shows "outcome (api_ai cfg e fetch b) =
           Inr \<lparr> status = 200, body = reply_body (JString reply_fallback) \<rparr>
     \<and> (\<forall>cfg' e' fetch' b' response.
          outcome (api_ai cfg' e' fetch' b') = Inr response \<and> status response = 200
            \<longrightarrow> field_at (body response) [ascii ''reply''] \<noteq> Some (JString []))"
proof
  show "outcome (api_ai cfg e fetch b) =
           Inr \<lparr> status = 200, body = reply_body (JString reply_fallback) \<rparr>"
    using api_ai_decoded [where b = b and q = q and cfg = cfg and key = key and fetch = fetch
      and e = e and r = r and data = data] assms
    by (simp add: response_interpreter_def value_at_def)
next
  show "\<forall>cfg' e' fetch' b' response.
          outcome (api_ai cfg' e' fetch' b') = Inr response \<and> status response = 200
            \<longrightarrow> field_at (body response) [ascii ''reply''] \<noteq> Some (JString [])"
  proof (intro allI impI)
    fix cfg' e' fetch' b' response
    assume "outcome (api_ai cfg' e' fetch' b') = Inr response \<and> status response = 200"
    then obtain v where "body response = reply_body v" and "truthy v"
      using api_ai_200_reply_truthy by blast
    then show "field_at (body response) [ascii ''reply''] \<noteq> Some (JString [])"
      by (auto simp: reply_body_def)
  qed
qed

theorem empty_text_falls_back_witness:
  "outcome (api_ai example_config startup_env
      (mock_upstream (responds 200 (candidates_body (JString [])))) example_request)
     = Inr \<lparr> status = 200, body = reply_body (JString reply_fallback) \<rparr>
   \<and> field_at (reply_body (JString reply_fallback)) [ascii ''reply''] \<noteq> Some (JString [])"
proof -
  let ?run = "api_ai example_config startup_env
      (mock_upstream (responds 200 (candidates_body (JString [])))) example_request"
  let ?response = "\<lparr> status = 200, body = reply_body (JString reply_fallback) \<rparr>"
  have up: "mock_upstream (responds 200 (candidates_body (JString [])))
               (gemini_request (ascii ''secret'') startup_env (JString (ascii ''Hi'')))
             = Resolves \<lparr> api_status = 200, api_json = Inr (candidates_body (JString [])) \<rparr>"
    by (simp add: mock_upstream_def responds_def)
  have both: "outcome ?run = Inr ?response
     \<and> (\<forall>cfg' e' fetch' b' response.
          outcome (api_ai cfg' e' fetch' b') = Inr response \<and> status response = 200
            \<longrightarrow> field_at (body response) [ascii ''reply''] \<noteq> Some (JString []))"
    by (rule empty_text_falls_back
          [where fetch = "mock_upstream (responds 200 (candidates_body (JString [])))"
             and data = "candidates_body (JString [])",
           OF example_request_query _ example_config_key _ up])
       simp_all
  then have "outcome ?run = Inr ?response \<and> status ?response = 200
      \<longrightarrow> field_at (body ?response) [ascii ''reply''] \<noteq> Some (JString [])"
    by blast
  with both show ?thesis
    by simp
qed

end
